theory Spec2Isabelle
  imports Complex_Main
begin

section \<open>Python primitives used by the service\<close>

text \<open>
  Python floats are modelled by the real numbers they denote; the float literals
  \<open>0.8\<close>, \<open>0.6\<close> and \<open>-1.0\<close> of the source are the reals of the same name.
  NaN and the infinities are not modelled.
\<close>

text \<open>\<open>int(x)\<close> on a float: truncation towards zero.\<close>

definition py_int :: "real \<Rightarrow> int" where
  "py_int x = (if 0 \<le> x then \<lfloor>x\<rfloor> else \<lceil>x\<rceil>)"

text \<open>\<open>round(x)\<close> with one argument: the nearest integer, a tie going to the even one.\<close>

definition py_round :: "real \<Rightarrow> int" where
  "py_round x =
     (let f = \<lfloor>x\<rfloor>; d = x - of_int f
      in if d < 1 / 2 then f
         else if 1 / 2 < d then f + 1
         else if even f then f else f + 1)"

text \<open>
  \<open>str.lower()\<close>, on ASCII: the labels of the two models and every token of the
  source are ASCII strings.
\<close>

definition lower_char :: "char \<Rightarrow> char" where
  "lower_char c =
     (case map_of (zip ''ABCDEFGHIJKLMNOPQRSTUVWXYZ'' ''abcdefghijklmnopqrstuvwxyz'') c of
        Some l \<Rightarrow> l
      | None \<Rightarrow> c)"

definition lower :: "string \<Rightarrow> string" where
  "lower s = map lower_char s"

text \<open>\<open>s.startswith(tok)\<close>, and \<open>tok in s\<close> on strings: \<open>tok\<close> occurs in \<open>s\<close> as a substring.\<close>

fun startswith :: "string \<Rightarrow> string \<Rightarrow> bool" where
  "startswith s [] = True"
| "startswith [] (t # ts) = False"
| "startswith (c # s) (t # ts) = (c = t \<and> startswith s ts)"

fun py_in :: "string \<Rightarrow> string \<Rightarrow> bool" where
  "py_in tok [] = (tok = [])"
| "py_in tok (c # s) = (startswith (c # s) tok \<or> py_in tok s)"

text \<open>\<open>any(tok in s for tok in toks)\<close>.\<close>

definition any_tok_in :: "string list \<Rightarrow> string \<Rightarrow> bool" where
  "any_tok_in toks s = list_ex (\<lambda>tok. py_in tok s) toks"

text \<open>The decimal rendering of an integer inside an f-string.\<close>

definition digit_char :: "nat \<Rightarrow> char" where
  "digit_char d = ''0123456789'' ! d"

fun str_nat :: "nat \<Rightarrow> string" where
  "str_nat n = (if n < 10 then [digit_char n] else str_nat (n div 10) @ [digit_char (n mod 10)])"

declare str_nat.simps [simp del]

definition str_int :: "int \<Rightarrow> string" where
  "str_int i = (if i < 0 then CHR ''-'' # str_nat (nat (- i)) else str_nat (nat i))"

section \<open>Data model\<close>

type_synonym fbox = "real \<times> real \<times> real \<times> real"
type_synonym ibox = "int \<times> int \<times> int \<times> int"

text \<open>One entry of the list \<open>detect_objects\<close> returns.\<close>

record detection =
  det_label :: string
  det_confidence :: real
  det_box :: fbox

text \<open>The dictionary \<open>classify_crop\<close> returns.\<close>

record cls_result =
  c_label :: string
  c_confidence :: real
  c_top3 :: "(string \<times> real) list"

text \<open>One entry of \<open>classified_regions\<close>.\<close>

record classified_region =
  r_label :: string
  r_confidence :: real
  r_top3 :: "(string \<times> real) list"
  r_box :: ibox

text \<open>The \<open>data.classification\<close> object of the response; \<open>None\<close> is JSON \<open>null\<close>.\<close>

record classification =
  diseaseDetected :: bool
  diseaseName :: string
  confidence :: int
  severity :: "string option"
  affectedArea :: "int option"
  recommendations :: "string list"
  processingTime :: int
  model :: string

record analysis =
  data_classification :: classification
  data_report :: string
  data_detections :: "detection list"
  data_regions :: "classified_region list"

text \<open>
  The two responses of \<open>/classify\<close>: the report, or status 500 with the text of the
  exception that was caught.
\<close>

datatype response = is_Success: Success (the_analysis: analysis) | Failure (detail: string)

section \<open>Domain estimation\<close>

definition animal_tokens :: "string set" where
  "animal_tokens =
     {''cow'', ''sheep'', ''horse'', ''dog'', ''cat'', ''bird'', ''zebra'', ''giraffe'', ''bear''}"

definition plant_tokens :: "string set" where
  "plant_tokens = {''potted plant'', ''plant''}"

definition estimate_domain :: "detection list \<Rightarrow> string \<Rightarrow> string" where
  "estimate_domain dets cls_label =
     (let labels = set (map (\<lambda>d. lower (det_label d)) dets);
          lowered = lower cls_label
      in if labels \<inter> animal_tokens \<noteq> {} then ''livestock''
         else if labels \<inter> plant_tokens \<noteq> {} then ''plant''
         else if any_tok_in [''shark'', ''ray'', ''tench'', ''goldfish'', ''salmon'', ''trout'',
                             ''tilapia'', ''cod'', ''mackerel''] lowered then ''fish''
         else if any_tok_in [''leaf'', ''plant'', ''tomato'', ''potato'', ''maize'', ''corn'',
                             ''wheat'', ''rice''] lowered then ''plant''
         else if any_tok_in [''cow'', ''sheep'', ''horse'', ''cat'', ''dog'', ''tiger'', ''lion'']
                   lowered then ''livestock''
         else ''plant'')"

section \<open>Narrative\<close>

definition make_narrative :: "string \<Rightarrow> string \<Rightarrow> real \<Rightarrow> detection list \<Rightarrow> string" where
  "make_narrative domain cls_label cls_conf dets =
     (let pct = py_round (cls_conf * 100)
      in if domain = ''plant'' then
           (if any_tok_in [''blight'', ''mildew'', ''rust'', ''fungus'', ''spot''] (lower cls_label)
            then ''This plant shows signs of '' @ cls_label @ ''. Confidence '' @ str_int pct
                 @ ''%. Consider isolating the affected area and applying appropriate treatment.''
            else ''This appears to be a healthy plant or foliage ('' @ cls_label
                 @ ''). Confidence '' @ str_int pct @ ''%.'')
         else if domain = ''livestock'' then
           ''This looks like '' @ cls_label @ ''. Confidence '' @ str_int pct
           @ ''%. The animal appears healthy.''
         else if domain = ''fish'' then
           ''This appears to be a '' @ cls_label @ ''. Confidence '' @ str_int pct
           @ ''%. The fish looks healthy.''
         else ''Detected subject classified as '' @ cls_label @ '' with '' @ str_int pct
              @ ''% confidence.'')"

section \<open>The \<open>/classify\<close> pipeline\<close>

subsection \<open>Regions\<close>

text \<open>The clamping of one detection box inside the loop over the detections.\<close>

definition clamp_box :: "int \<Rightarrow> int \<Rightarrow> fbox \<Rightarrow> ibox" where
  "clamp_box width height b =
     (case b of (x1, y1, x2, y2) \<Rightarrow>
        (max 0 (py_int x1), max 0 (py_int y1), min width (py_int x2), min height (py_int y2)))"

text \<open>
  \<open>pil_img.crop((x1, y1, x2, y2))\<close>: Pillow's \<open>Image.crop\<close> raises ValueError when the right
  edge lies left of the left edge, or the lower edge above the upper one, and returns
  the region otherwise. The pixels of the region are not modelled, and the two strings
  stand for the texts of Pillow's exceptions.
\<close>

definition pil_crop :: "ibox \<Rightarrow> string + unit" where
  "pil_crop b =
     (case b of (x1, y1, x2, y2) \<Rightarrow>
        if x2 < x1 then Inl ''Coordinate right is less than left''
        else if y2 < y1 then Inl ''Coordinate lower is less than upper''
        else Inr ())"

text \<open>
  The loop \<open>for det in detections\<close>: the box is clamped, the region is cropped, and then
  the box is appended; an exception of the crop ends the request.
\<close>

fun crop_detections :: "int \<Rightarrow> int \<Rightarrow> detection list \<Rightarrow> string + ibox list" where
  "crop_detections width height [] = Inr []"
| "crop_detections width height (det # dets) =
     (let b = clamp_box width height (det_box det)
      in case pil_crop b of
           Inl e \<Rightarrow> Inl e
         | Inr u \<Rightarrow>
             (case crop_detections width height dets of
                Inl e \<Rightarrow> Inl e
              | Inr bs \<Rightarrow> Inr (b # bs)))"

text \<open>
  \<open>boxes_for_regions\<close>: one box per detection, or the whole image, which is not cropped,
  when there is none.
\<close>

definition boxes_for_regions :: "int \<Rightarrow> int \<Rightarrow> detection list \<Rightarrow> string + ibox list" where
  "boxes_for_regions width height dets =
     (if dets \<noteq> [] then crop_detections width height dets
      else Inr [(0, 0, width, height)])"

subsection \<open>Classifying the regions and picking the best\<close>

text \<open>
  The loop \<open>for i, region in enumerate(regions)\<close>. The parameter \<open>clf\<close> stands for the
  Classification Collaborator applied to the region of a box; \<open>Inl\<close> is the exception it
  raised, which ends the request. The state of the loop is \<open>classified_regions\<close>,
  \<open>best_idx\<close> and \<open>best_conf\<close>.
\<close>

fun classify_regions ::
  "(ibox \<Rightarrow> string + cls_result) \<Rightarrow> nat \<Rightarrow> ibox list \<Rightarrow>
   classified_region list \<times> nat \<times> real \<Rightarrow> string + classified_region list \<times> nat \<times> real" where
  "classify_regions clf i [] st = Inr st"
| "classify_regions clf i (b # bs) (classified, best_idx, best_conf) =
     (case clf b of
        Inl e \<Rightarrow> Inl e
      | Inr cls \<Rightarrow>
          (let entry = \<lparr>r_label = c_label cls, r_confidence = c_confidence cls,
                        r_top3 = c_top3 cls, r_box = b\<rparr>
           in classify_regions clf (Suc i) bs
                (if best_conf < c_confidence cls
                 then (classified @ [entry], i, c_confidence cls)
                 else (classified @ [entry], best_idx, best_conf))))"

subsection \<open>The decisions after the loop\<close>

text \<open>\<open>imageDomain or estimate_domain(detections, primary_label)\<close>: \<open>None\<close> and the empty
  string are falsy.\<close>

definition resolve_domain :: "string option \<Rightarrow> detection list \<Rightarrow> string \<Rightarrow> string" where
  "resolve_domain imageDomain dets primary_label =
     (case imageDomain of
        None \<Rightarrow> estimate_domain dets primary_label
      | Some d \<Rightarrow> if d = [] then estimate_domain dets primary_label else d)"

fun box_area :: "ibox \<Rightarrow> int" where
  "box_area (x1, y1, x2, y2) = max 0 (x2 - x1) * max 0 (y2 - y1)"

text \<open>\<open>region_area\<close>: the sum accumulated over \<open>boxes_for_regions\<close>, starting from 0.\<close>

definition region_area :: "ibox list \<Rightarrow> int" where
  "region_area boxes = foldl (\<lambda>acc box. acc + box_area box) 0 boxes"

definition affected_area_pct :: "string \<Rightarrow> int \<Rightarrow> int \<Rightarrow> ibox list \<Rightarrow> int option" where
  "affected_area_pct domain width height boxes =
     (if domain = ''plant'' then
        (let total_area = width * height
         in if 0 < total_area
            then Some (py_round (of_int (100 * region_area boxes) / of_int total_area))
            else None)
      else None)"

definition severity_heuristic :: "string \<Rightarrow> real \<Rightarrow> string option" where
  "severity_heuristic domain best_conf =
     (if domain = ''plant'' then
        (if 0.8 \<le> best_conf then Some ''high''
         else if 0.6 \<le> best_conf then Some ''medium''
         else Some ''low'')
      else None)"

definition disease_tokens :: "string list" where
  "disease_tokens = [''blight'', ''mildew'', ''rust'', ''fungus'', ''spot'', ''mold'']"

definition disease_detected :: "string \<Rightarrow> string \<Rightarrow> bool" where
  "disease_detected domain primary_label =
     (if domain = ''plant'' then any_tok_in disease_tokens (lower primary_label) else False)"

definition disease_name :: "string \<Rightarrow> string \<Rightarrow> string" where
  "disease_name domain primary_label =
     (if disease_detected domain primary_label then primary_label
      else if domain \<noteq> ''plant'' then primary_label else ''Healthy'')"

definition recommendations_for :: "string \<Rightarrow> bool \<Rightarrow> string list" where
  "recommendations_for domain detected =
     (if domain = ''plant'' then
        (if detected then
           [''Isolate affected leaves to reduce spread.'',
            ''Apply appropriate fungicide as per local guidance.'',
            ''Ensure proper airflow and avoid overhead watering.'']
         else
           [''Maintain regular watering and balanced fertilization.'',
            ''Monitor for any spots or discoloration.''])
      else if domain = ''livestock'' then
        [''Provide clean water and balanced feed.'',
         ''Monitor for signs of distress or illness.'']
      else if domain = ''fish'' then
        [''Maintain optimal water quality and temperature.'',
         ''Monitor for abnormal swimming or spots.'']
      else [])"

subsection \<open>The endpoint\<close>

text \<open>
  Everything of \<open>classify\<close> after the loop. \<open>classified_regions[best_idx]\<close> raises
  IndexError out of range.
\<close>

definition assemble ::
  "int \<Rightarrow> int \<Rightarrow> detection list \<Rightarrow> string option \<Rightarrow> int \<Rightarrow> ibox list \<Rightarrow>
   classified_region list \<Rightarrow> nat \<Rightarrow> real \<Rightarrow> response" where
  "assemble width height dets imageDomain processing_time boxes classified best_idx best_conf =
     (if best_idx < length classified then
        (let primary_label = r_label (classified ! best_idx);
             domain = resolve_domain imageDomain dets primary_label;
             detected = disease_detected domain primary_label
         in Success
              \<lparr>data_classification =
                 \<lparr>diseaseDetected = detected,
                  diseaseName = disease_name domain primary_label,
                  confidence = py_round (best_conf * 100),
                  severity = severity_heuristic domain best_conf,
                  affectedArea = affected_area_pct domain width height boxes,
                  recommendations = recommendations_for domain detected,
                  processingTime = processing_time,
                  model = ''agriclip-yolov8-efficientnet-b3''\<rparr>,
               data_report = make_narrative domain primary_label best_conf dets,
               data_detections = dets,
               data_regions = classified\<rparr>)
      else Failure ''list index out of range'')"

text \<open>
  The endpoint. \<open>img\<close> is the outcome of decoding the upload (the size of the image, or
  the exception; Pillow decodes no image without a positive width and height),
  \<open>detected\<close> the outcome of the Detection Collaborator, \<open>clf\<close> the
  Classification Collaborator on the region of a box, \<open>processing_time\<close> the
  milliseconds the clock measured.
\<close>

definition classify ::
  "string + int \<times> int \<Rightarrow> string + detection list \<Rightarrow> (ibox \<Rightarrow> string + cls_result) \<Rightarrow>
   string option \<Rightarrow> int \<Rightarrow> response" where
  "classify img detected clf imageDomain processing_time =
     (case img of
        Inl e \<Rightarrow> Failure e
      | Inr (width, height) \<Rightarrow>
          (case detected of
             Inl e \<Rightarrow> Failure e
           | Inr dets \<Rightarrow>
               (case boxes_for_regions width height dets of
                  Inl e \<Rightarrow> Failure e
                | Inr boxes \<Rightarrow>
                    (case classify_regions clf 0 boxes ([], 0, - 1) of
                       Inl e \<Rightarrow> Failure e
                     | Inr (classified, best_idx, best_conf) \<Rightarrow>
                         assemble width height dets imageDomain processing_time boxes
                           classified best_idx best_conf))))"

section \<open>Fixtures and proof devices\<close>

text \<open>
  The invariant of the loop over the regions: \<open>best_conf\<close> bounds every confidence seen so
  far, and either nothing has exceeded the initial \<open>-1.0\<close> yet, or \<open>best_idx\<close> is the first
  index whose confidence is \<open>best_conf\<close>.
\<close>

definition best_inv :: "classified_region list \<Rightarrow> nat \<Rightarrow> real \<Rightarrow> bool" where
  "best_inv acc bi bc \<longleftrightarrow>
     (\<forall>j<length acc. r_confidence (acc ! j) \<le> bc) \<and>
     (bc = - 1 \<and> bi = 0 \<or>
      bi < length acc \<and> r_confidence (acc ! bi) = bc \<and> (\<forall>j<bi. r_confidence (acc ! j) < bc))"

text \<open>The entry the loop appends for a box and the result of classifying its region.\<close>

definition entry_of :: "ibox \<Rightarrow> classified_region \<Rightarrow> cls_result \<Rightarrow> bool" where
  "entry_of b r cls \<longleftrightarrow>
     r = \<lparr>r_label = c_label cls, r_confidence = c_confidence cls, r_top3 = c_top3 cls, r_box = b\<rparr>"

text \<open>
  The bound that the specification states for the box of a region:
  \<open>0 \<le> x1 \<le> x2 \<le> width\<close> and \<open>0 \<le> y1 \<le> y2 \<le> height\<close>.
\<close>

fun box_within :: "int \<Rightarrow> int \<Rightarrow> ibox \<Rightarrow> bool" where
  "box_within width height (x1, y1, x2, y2) =
     (0 \<le> x1 \<and> x1 \<le> x2 \<and> x2 \<le> width \<and> 0 \<le> y1 \<and> y1 \<le> y2 \<and> y2 \<le> height)"

text \<open>
  Stub collaborators for concrete runs: a detection, a classification result, and a
  classifier given by a table from boxes to results that raises on any other box.
\<close>

definition stub_detection :: "string \<Rightarrow> real \<Rightarrow> fbox \<Rightarrow> detection" where
  "stub_detection l c b = \<lparr>det_label = l, det_confidence = c, det_box = b\<rparr>"

definition stub_result :: "string \<Rightarrow> real \<Rightarrow> cls_result" where
  "stub_result l c = \<lparr>c_label = l, c_confidence = c, c_top3 = [(l, c)]\<rparr>"

definition stub_classifier :: "(ibox \<times> cls_result) list \<Rightarrow> ibox \<Rightarrow> string + cls_result" where
  "stub_classifier table b =
     (case map_of table b of Some cls \<Rightarrow> Inr cls | None \<Rightarrow> Inl ''inference failed'')"

section \<open>Facts about the primitives\<close>

lemma startswith_iff: "startswith s tok \<longleftrightarrow> (\<exists>zs. s = tok @ zs)"
  by (induction s tok rule: startswith.induct) auto

lemma py_in_iff: "py_in tok s \<longleftrightarrow> (\<exists>ys zs. s = ys @ tok @ zs)"
proof (induction s)
  case Nil
  then show ?case by auto
next
  case (Cons c s)
  have "(\<exists>ys zs. c # s = ys @ tok @ zs) \<longleftrightarrow> (\<exists>zs. c # s = tok @ zs) \<or> (\<exists>ys zs. s = ys @ tok @ zs)"
    by (auto simp: Cons_eq_append_conv) 
  with Cons show ?case by (simp add: startswith_iff)
qed

lemma any_tok_in_iff: "any_tok_in toks s \<longleftrightarrow> (\<exists>tok\<in>set toks. \<exists>ys zs. s = ys @ tok @ zs)"
  by (simp add: any_tok_in_def list_ex_iff py_in_iff)

lemma foldl_area: "foldl (\<lambda>acc box. acc + box_area box) a boxes = a + sum_list (map box_area boxes)"
  by (induction boxes arbitrary: a) auto

lemma region_area_sum: "region_area boxes = sum_list (map box_area boxes)"
  by (simp add: region_area_def foldl_area)

lemma best_inv_step:
  assumes "best_inv acc bi bc"
  shows "best_inv (acc @ [e]) (if bc < r_confidence e then length acc else bi)
           (if bc < r_confidence e then r_confidence e else bc)"
  using assms unfolding best_inv_def
  by (auto simp: nth_append less_Suc_eq)

lemma classify_regions_shape:
  "classify_regions clf i bs (acc, bi, bc) = Inr (cl, bi', bc') \<Longrightarrow>
   \<exists>new. cl = acc @ new \<and> list_all2 (\<lambda>b r. \<exists>cls. clf b = Inr cls \<and> entry_of b r cls) bs new"
proof (induction bs arbitrary: i acc bi bc)
  case Nil
  then show ?case by simp
next
  case (Cons b bs)
  from Cons.prems obtain cls where c: "clf b = Inr cls"
    by (auto split: sum.splits)
  let ?e = "\<lparr>r_label = c_label cls, r_confidence = c_confidence cls, r_top3 = c_top3 cls, r_box = b\<rparr>"
  from Cons.prems c obtain bi1 bc1 where
    r: "classify_regions clf (Suc i) bs (acc @ [?e], bi1, bc1) = Inr (cl, bi', bc')"
    by (auto simp: Let_def split: if_splits)
  from Cons.IH[OF r] obtain new where
    n: "cl = (acc @ [?e]) @ new" "list_all2 (\<lambda>b r. \<exists>cls. clf b = Inr cls \<and> entry_of b r cls) bs new"
    by blast
  have "cl = acc @ (?e # new)" using n(1) by simp
  moreover have "list_all2 (\<lambda>b r. \<exists>cls. clf b = Inr cls \<and> entry_of b r cls) (b # bs) (?e # new)"
    using n(2) c by (simp add: entry_of_def)
  ultimately show ?case by blast
qed

lemma classify_regions_best:
  "classify_regions clf (length acc) bs (acc, bi, bc) = Inr (cl, bi', bc') \<Longrightarrow>
   best_inv acc bi bc \<Longrightarrow> best_inv cl bi' bc'"
proof (induction bs arbitrary: acc bi bc)
  case Nil
  then show ?case by simp
next
  case (Cons b bs)
  from Cons.prems(1) obtain cls where c: "clf b = Inr cls"
    by (auto split: sum.splits)
  let ?e = "\<lparr>r_label = c_label cls, r_confidence = c_confidence cls, r_top3 = c_top3 cls, r_box = b\<rparr>"
  let ?bi = "if bc < r_confidence ?e then length acc else bi"
  let ?bc = "if bc < r_confidence ?e then r_confidence ?e else bc"
  from Cons.prems(1) c have
    r: "classify_regions clf (length (acc @ [?e])) bs (acc @ [?e], ?bi, ?bc) = Inr (cl, bi', bc')"
    by (auto simp: Let_def split: if_splits)
  have "best_inv (acc @ [?e]) ?bi ?bc"
    using Cons.prems(2) by (rule best_inv_step)
  with r show ?case by (rule Cons.IH)
qed

lemma best_inv_init: "best_inv [] 0 (- 1)"
  by (simp add: best_inv_def)

lemma classify_regions_run:
  assumes "classify_regions clf 0 bs ([], 0, - 1) = Inr (cl, bi, bc)"
  shows "best_inv cl bi bc"
    and "list_all2 (\<lambda>b r. \<exists>cls. clf b = Inr cls \<and> entry_of b r cls) bs cl"
proof -
  from assms have "classify_regions clf (length ([]::classified_region list)) bs ([], 0, - 1) = Inr (cl, bi, bc)"
    by simp
  then show "best_inv cl bi bc" using best_inv_init by (rule classify_regions_best)
  from classify_regions_shape[OF assms] show "list_all2 (\<lambda>b r. \<exists>cls. clf b = Inr cls \<and> entry_of b r cls) bs cl"
    by simp
qed

lemma crop_detections_Inr:
  "crop_detections width height dets = Inr bs \<Longrightarrow>
   bs = map (\<lambda>det. clamp_box width height (det_box det)) dets \<and>
   (\<forall>b \<in> set bs. pil_crop b = Inr ())"
proof (induction dets arbitrary: bs)
  case Nil
  then show ?case by simp
next
  case (Cons det dets)
  from Cons.prems obtain bs' where
    c: "pil_crop (clamp_box width height (det_box det)) = Inr ()" and
    r: "crop_detections width height dets = Inr bs'" and
    b: "bs = clamp_box width height (det_box det) # bs'"
    by (auto simp: Let_def split: sum.splits)
  from Cons.IH[OF r] c b show ?case by simp
qed

lemma boxes_for_regions_nonempty:
  assumes "boxes_for_regions width height dets = Inr boxes"
  shows "boxes \<noteq> []"
proof (cases "dets = []")
  case True
  with assms show ?thesis by (auto simp: boxes_for_regions_def)
next
  case False
  with assms have "crop_detections width height dets = Inr boxes"
    by (simp add: boxes_for_regions_def)
  from crop_detections_Inr[OF this] False show ?thesis by simp
qed

lemma best_idx_in_range:
  assumes "classify_regions clf 0 bs ([], 0, - 1) = Inr (cl, bi, bc)" and "bs \<noteq> []"
  shows "bi < length cl"
proof -
  from classify_regions_run[OF assms(1)] have i: "best_inv cl bi bc"
    and l: "length bs = length cl" by (auto dest: list_all2_lengthD)
  from l assms(2) have "0 < length cl" by (cases bs) auto
  with i show ?thesis by (auto simp: best_inv_def)
qed

lemma classify_Success:
  assumes "boxes_for_regions width height dets = Inr boxes"
    and "classify_regions clf 0 boxes ([], 0, - 1) = Inr (classified, best_idx, best_conf)"
  shows "classify (Inr (width, height)) (Inr dets) clf imageDomain processing_time =
         assemble width height dets imageDomain processing_time boxes
           classified best_idx best_conf"
    and "best_idx < length classified"
  using assms best_idx_in_range[OF assms(2) boxes_for_regions_nonempty[OF assms(1)]]
  by (simp_all add: classify_def)

section \<open>Region boxes\<close>

lemma clamp_ordered_iff:
  "max 0 (i1::int) \<le> min w i2 \<longleftrightarrow> 0 \<le> w \<and> 0 \<le> i2 \<and> i1 \<le> w \<and> i1 \<le> i2"
  by auto

lemma cropped_box_within:
  assumes "pil_crop (clamp_box width height fb) = Inr ()"
  shows "box_within width height (clamp_box width height fb)"
proof -
  obtain x1 y1 x2 y2 where fb: "fb = (x1, y1, x2, y2)"
    by (cases fb) auto
  from assms show ?thesis
    unfolding fb by (auto simp: pil_crop_def clamp_box_def not_less split: if_splits)
qed

lemma emitted_boxes_within:
  assumes "boxes_for_regions width height dets = Inr boxes" and "dets \<noteq> []"
  shows "list_all (box_within width height) boxes"
proof -
  from assms have c: "crop_detections width height dets = Inr boxes"
    by (simp add: boxes_for_regions_def)
  from crop_detections_Inr[OF c] have
    m: "boxes = map (\<lambda>det. clamp_box width height (det_box det)) dets" and
    k: "\<forall>b \<in> set boxes. pil_crop b = Inr ()"
    by blast+
  from k have "\<forall>det \<in> set dets. pil_crop (clamp_box width height (det_box det)) = Inr ()"
    unfolding m by simp
  then have "\<forall>det \<in> set dets. box_within width height (clamp_box width height (det_box det))"
    by (blast intro: cropped_box_within)
  then show ?thesis
    unfolding m by (simp add: list_all_iff)
qed

text \<open>
  Claim C1 says that for every input box, also one that lies outside the image, the
  Region Extractor emits a region whose box has \<open>0 \<le> x1 \<le> x2 \<le> width\<close> and
  \<open>0 \<le> y1 \<le> y2 \<le> height\<close>. The loop clamps \<open>x1, y1\<close> from below and \<open>x2, y2\<close> from above
  only: the detection box \<open>(150, 10, 200, 50)\<close> in a 100 x 100 image becomes
  \<open>(150, 10, 100, 50)\<close>, the crop of that box raises, and the request ends with status
  500 instead of a region within the image. (Every box that the crop accepts is within
  the image, by \<open>emitted_boxes_within\<close>.)
\<close>

theorem outside_box_ends_request:
  "clamp_box 100 100 (150, 10, 200, 50) = (150, 10, 100, 50) \<and>
   boxes_for_regions 100 100 [stub_detection ''cow'' 0.9 (150, 10, 200, 50)]
     = Inl ''Coordinate right is less than left'' \<and>
   classify (Inr (100, 100)) (Inr [stub_detection ''cow'' 0.9 (150, 10, 200, 50)])
     (stub_classifier [((150, 10, 100, 50), stub_result ''cow'' 0.9)]) None 5
     = Failure ''Coordinate right is less than left''"
  by code_simp

section \<open>Narrative and disease decision\<close>

text \<open>
  Claim C2 says that for the plant domain a label containing any of blight, mildew,
  rust, fungus, spot or mold gives the narrative "This plant shows signs of ...". The
  list inside \<open>make_narrative\<close> has no "mold", while \<open>disease_tokens\<close> of the endpoint
  has it: for the label "Sooty Mold" at confidence 0.72 the narrative is the one of a
  healthy plant, although the disease decision on the same label flags a disease.
\<close>

theorem narrative_mold_reads_healthy:
  "make_narrative ''plant'' ''Sooty Mold'' 0.72 [] =
     ''This appears to be a healthy plant or foliage (Sooty Mold). Confidence 72%.'' \<and>
   disease_detected ''plant'' ''Sooty Mold''"
  by code_simp

section \<open>The report of a request whose collaborators succeed\<close>

lemma assemble_Success:
  assumes "best_idx < length classified"
  shows "assemble width height dets imageDomain processing_time boxes classified best_idx best_conf =
     Success
       \<lparr>data_classification =
          \<lparr>diseaseDetected =
             disease_detected (resolve_domain imageDomain dets (r_label (classified ! best_idx)))
               (r_label (classified ! best_idx)),
           diseaseName =
             disease_name (resolve_domain imageDomain dets (r_label (classified ! best_idx)))
               (r_label (classified ! best_idx)),
           confidence = py_round (best_conf * 100),
           severity =
             severity_heuristic (resolve_domain imageDomain dets (r_label (classified ! best_idx)))
               best_conf,
           affectedArea =
             affected_area_pct (resolve_domain imageDomain dets (r_label (classified ! best_idx)))
               width height boxes,
           recommendations =
             recommendations_for (resolve_domain imageDomain dets (r_label (classified ! best_idx)))
               (disease_detected (resolve_domain imageDomain dets (r_label (classified ! best_idx)))
                  (r_label (classified ! best_idx))),
           processingTime = processing_time,
           model = ''agriclip-yolov8-efficientnet-b3''\<rparr>,
        data_report =
          make_narrative (resolve_domain imageDomain dets (r_label (classified ! best_idx)))
            (r_label (classified ! best_idx)) best_conf dets,
        data_detections = dets,
        data_regions = classified\<rparr>"
  using assms by (simp add: assemble_def Let_def)

lemma classify_report:
  assumes "boxes_for_regions width height dets = Inr boxes"
    and "classify_regions clf 0 boxes ([], 0, - 1) = Inr (classified, best_idx, best_conf)"
    and "primary_label = r_label (classified ! best_idx)"
    and "domain = resolve_domain imageDomain dets primary_label"
  shows "\<exists>a. classify (Inr (width, height)) (Inr dets) clf imageDomain processing_time = Success a \<and>
     diseaseDetected (data_classification a) = disease_detected domain primary_label \<and>
     diseaseName (data_classification a) = disease_name domain primary_label \<and>
     confidence (data_classification a) = py_round (best_conf * 100) \<and>
     severity (data_classification a) = severity_heuristic domain best_conf \<and>
     affectedArea (data_classification a) = affected_area_pct domain width height boxes \<and>
     recommendations (data_classification a) =
       recommendations_for domain (disease_detected domain primary_label) \<and>
     data_report a = make_narrative domain primary_label best_conf dets \<and>
     data_detections a = dets \<and> data_regions a = classified"
  using classify_Success[OF assms(1,2)] assms(3,4)
  by (simp add: assemble_Success)

lemma region_boxes:
  assumes "classify_regions clf 0 boxes ([], 0, - 1) = Inr (classified, best_idx, best_conf)"
  shows "map r_box classified = boxes"
proof -
  from classify_regions_run(2)[OF assms]
  have "list_all2 (\<lambda>b r. r_box r = b) boxes classified"
    by (rule list_all2_mono) (auto simp: entry_of_def)
  then show ?thesis
    by (induction rule: list_all2_induct) auto
qed

section \<open>Disease decision\<close>

lemma disease_detected_iff:
  "disease_detected domain l \<longleftrightarrow>
     domain = ''plant'' \<and> (\<exists>tok \<in> set disease_tokens. \<exists>ys zs. lower l = ys @ tok @ zs)"
  by (simp add: disease_detected_def any_tok_in_iff)

text \<open>
  Claim C4. Whenever the regions are cropped and the classifier succeeds on every
  region, the endpoint returns a report in which \<open>diseaseDetected\<close> is true exactly when
  the domain is plant and the lowercased primary label contains one of blight, mildew,
  rust, fungus, spot, mold as a substring; so it is false for every other domain.
  \<open>diseaseName\<close> is the primary label when a disease is detected or the domain is not
  plant, and "Healthy" when the domain is plant and no token matched.
\<close>

theorem disease_decision:
  assumes "boxes_for_regions width height dets = Inr boxes"
    and "classify_regions clf 0 boxes ([], 0, - 1) = Inr (classified, best_idx, best_conf)"
    and "primary_label = r_label (classified ! best_idx)"
    and "domain = resolve_domain imageDomain dets primary_label"
  shows "\<exists>a. classify (Inr (width, height)) (Inr dets) clf imageDomain processing_time = Success a \<and>
     (diseaseDetected (data_classification a) \<longleftrightarrow>
        domain = ''plant'' \<and>
        (\<exists>tok \<in> set [''blight'', ''mildew'', ''rust'', ''fungus'', ''spot'', ''mold''].
           \<exists>ys zs. lower primary_label = ys @ tok @ zs)) \<and>
     (domain \<noteq> ''plant'' \<longrightarrow> \<not> diseaseDetected (data_classification a)) \<and>
     (diseaseDetected (data_classification a) \<or> domain \<noteq> ''plant'' \<longrightarrow>
        diseaseName (data_classification a) = primary_label) \<and>
     (\<not> diseaseDetected (data_classification a) \<and> domain = ''plant'' \<longrightarrow>
        diseaseName (data_classification a) = ''Healthy'')"
proof -
  from classify_report[OF assms] obtain a where
    a: "classify (Inr (width, height)) (Inr dets) clf imageDomain processing_time = Success a"
    and d: "diseaseDetected (data_classification a) = disease_detected domain primary_label"
    and n: "diseaseName (data_classification a) = disease_name domain primary_label"
    by blast
  note disease_detected_iff [of domain primary_label, unfolded disease_tokens_def]
  with a d n show ?thesis
    by (auto simp: disease_name_def)
qed

text \<open>
  A run of C4: a 100 x 100 image without detections whose only region is classified as
  "Sooty Mold" resolves to the plant domain, a disease is detected and named by the label.
\<close>

theorem disease_decision_witness:
  "diseaseDetected (data_classification (the_analysis
     (classify (Inr (100, 100)) (Inr [])
        (stub_classifier [((0, 0, 100, 100), stub_result ''Sooty Mold'' 0.72)]) None 5))) \<and>
   diseaseName (data_classification (the_analysis
     (classify (Inr (100, 100)) (Inr [])
        (stub_classifier [((0, 0, 100, 100), stub_result ''Sooty Mold'' 0.72)]) None 5)))
     = ''Sooty Mold''"
proof -
  let ?clf = "stub_classifier [((0, 0, 100, 100), stub_result ''Sooty Mold'' 0.72)]"
  let ?r = "\<lparr>r_label = ''Sooty Mold'', r_confidence = 0.72, r_top3 = [(''Sooty Mold'', 0.72)],
             r_box = (0, 0, 100, 100)\<rparr>"
  have b: "boxes_for_regions 100 100 [] = Inr [(0, 0, 100, 100)]"
    by code_simp
  have h: "classify_regions ?clf 0 [(0, 0, 100, 100)] ([], 0, - 1) = Inr ([?r], 0, 0.72)"
    by code_simp
  have p: "''Sooty Mold'' = r_label ([?r] ! 0)" by simp
  have e: "''plant'' = resolve_domain None [] ''Sooty Mold''" by code_simp
  have "any_tok_in [''blight'', ''mildew'', ''rust'', ''fungus'', ''spot'', ''mold'']
          (lower ''Sooty Mold'')"
    by code_simp
  then have k: "\<exists>tok \<in> set [''blight'', ''mildew'', ''rust'', ''fungus'', ''spot'', ''mold''].
                  \<exists>ys zs. lower ''Sooty Mold'' = ys @ tok @ zs"
    by (simp only: any_tok_in_iff)
  from disease_decision[OF b h p e, of 5] obtain a where
    a: "classify (Inr (100, 100)) (Inr []) ?clf None 5 = Success a" and
    d: "diseaseDetected (data_classification a) \<longleftrightarrow>
        ''plant'' = ''plant'' \<and>
        (\<exists>tok \<in> set [''blight'', ''mildew'', ''rust'', ''fungus'', ''spot'', ''mold''].
           \<exists>ys zs. lower ''Sooty Mold'' = ys @ tok @ zs)" and
    n: "diseaseDetected (data_classification a) \<or> ''plant'' \<noteq> ''plant'' \<longrightarrow>
        diseaseName (data_classification a) = ''Sooty Mold''"
    by blast
  from d k have "diseaseDetected (data_classification a)" by blast
  with n a show ?thesis by simp
qed

section \<open>Severity and affected area\<close>

text \<open>
  Claim C3. For a decoded image, whose width and height are positive, whenever the
  regions are cropped and the classifier succeeds on every region, the endpoint returns
  a report in which \<open>severity\<close> is present exactly when the resolved domain is plant, and
  so is \<open>affectedArea\<close>; for every other domain both are absent.
\<close>

theorem severity_and_area_presence:
  assumes "0 < width * height"
    and "boxes_for_regions width height dets = Inr boxes"
    and "classify_regions clf 0 boxes ([], 0, - 1) = Inr (classified, best_idx, best_conf)"
    and "primary_label = r_label (classified ! best_idx)"
    and "domain = resolve_domain imageDomain dets primary_label"
  shows "\<exists>a. classify (Inr (width, height)) (Inr dets) clf imageDomain processing_time = Success a \<and>
     (severity (data_classification a) \<noteq> None \<longleftrightarrow> domain = ''plant'') \<and>
     (affectedArea (data_classification a) \<noteq> None \<longleftrightarrow> domain = ''plant'') \<and>
     (domain \<noteq> ''plant'' \<longrightarrow>
        severity (data_classification a) = None \<and> affectedArea (data_classification a) = None)"
proof -
  from classify_report[OF assms(2-5)] obtain a where
    a: "classify (Inr (width, height)) (Inr dets) clf imageDomain processing_time = Success a"
    and s: "severity (data_classification a) = severity_heuristic domain best_conf"
    and f: "affectedArea (data_classification a) = affected_area_pct domain width height boxes"
    by blast
  have "severity_heuristic domain best_conf \<noteq> None \<longleftrightarrow> domain = ''plant''"
    by (simp add: severity_heuristic_def)
  moreover have "affected_area_pct domain width height boxes \<noteq> None \<longleftrightarrow> domain = ''plant''"
    using assms(1) by (simp add: affected_area_pct_def Let_def)
  ultimately show ?thesis using a s f by auto
qed

text \<open>
  Runs of C3. A 200 x 200 image with one detection labelled "sheep", whose region is
  classified as "sheep" at 0.88, resolves to livestock and has neither field; a
  100 x 100 image without detections, classified as "leaf" at 0.9, resolves to plant
  and has both.
\<close>

theorem severity_and_area_presence_witness:
  "severity (data_classification (the_analysis
     (classify (Inr (200, 200)) (Inr [stub_detection ''sheep'' 0.95 (10, 10, 50, 50)])
        (stub_classifier [((10, 10, 50, 50), stub_result ''sheep'' 0.88)]) None 5))) = None \<and>
   affectedArea (data_classification (the_analysis
     (classify (Inr (200, 200)) (Inr [stub_detection ''sheep'' 0.95 (10, 10, 50, 50)])
        (stub_classifier [((10, 10, 50, 50), stub_result ''sheep'' 0.88)]) None 5))) = None \<and>
   severity (data_classification (the_analysis
     (classify (Inr (100, 100)) (Inr [])
        (stub_classifier [((0, 0, 100, 100), stub_result ''leaf'' 0.9)]) None 5))) \<noteq> None \<and>
   affectedArea (data_classification (the_analysis
     (classify (Inr (100, 100)) (Inr [])
        (stub_classifier [((0, 0, 100, 100), stub_result ''leaf'' 0.9)]) None 5))) \<noteq> None"
proof -
  let ?clf = "stub_classifier [((10, 10, 50, 50), stub_result ''sheep'' 0.88)]"
  let ?dets = "[stub_detection ''sheep'' 0.95 (10, 10, 50, 50)]"
  let ?r = "\<lparr>r_label = ''sheep'', r_confidence = 0.88, r_top3 = [(''sheep'', 0.88)],
             r_box = (10, 10, 50, 50)\<rparr>"
  let ?c2 = "stub_classifier [((0, 0, 100, 100), stub_result ''leaf'' 0.9)]"
  let ?r2 = "\<lparr>r_label = ''leaf'', r_confidence = 0.9, r_top3 = [(''leaf'', 0.9)],
              r_box = (0, 0, 100, 100)\<rparr>"
  have z: "(0::int) < 200 * 200" by simp
  have b: "boxes_for_regions 200 200 ?dets = Inr [(10, 10, 50, 50)]"
    by code_simp
  have h: "classify_regions ?clf 0 [(10, 10, 50, 50)] ([], 0, - 1) = Inr ([?r], 0, 0.88)"
    by code_simp
  have p: "''sheep'' = r_label ([?r] ! 0)" by simp
  have e: "''livestock'' = resolve_domain None ?dets ''sheep''" by code_simp
  have n: "''livestock'' \<noteq> ''plant''" by simp
  from severity_and_area_presence[OF z b h p e, of 5] obtain a where
    a: "classify (Inr (200, 200)) (Inr ?dets) ?clf None 5 = Success a" and
    d: "''livestock'' \<noteq> ''plant'' \<longrightarrow>
        severity (data_classification a) = None \<and> affectedArea (data_classification a) = None"
    by blast
  from d n have "severity (data_classification a) = None \<and> affectedArea (data_classification a) = None"
    by (rule mp)
  with a have w1: "severity (data_classification (the_analysis
       (classify (Inr (200, 200)) (Inr ?dets) ?clf None 5))) = None"
    and w2: "affectedArea (data_classification (the_analysis
       (classify (Inr (200, 200)) (Inr ?dets) ?clf None 5))) = None"
    by simp_all
  have z2: "(0::int) < 100 * 100" by simp
  have b2: "boxes_for_regions 100 100 [] = Inr [(0, 0, 100, 100)]"
    by code_simp
  have h2: "classify_regions ?c2 0 [(0, 0, 100, 100)] ([], 0, - 1) = Inr ([?r2], 0, 0.9)"
    by code_simp
  have p2: "''leaf'' = r_label ([?r2] ! 0)" by simp
  have e2: "''plant'' = resolve_domain None [] ''leaf''" by code_simp
  from severity_and_area_presence[OF z2 b2 h2 p2 e2, of 5] obtain a2 where
    a2: "classify (Inr (100, 100)) (Inr []) ?c2 None 5 = Success a2" and
    s2: "severity (data_classification a2) \<noteq> None \<longleftrightarrow> ''plant'' = ''plant''" and
    f2: "affectedArea (data_classification a2) \<noteq> None \<longleftrightarrow> ''plant'' = ''plant''"
    by blast
  from s2 f2 have "severity (data_classification a2) \<noteq> None"
    "affectedArea (data_classification a2) \<noteq> None"
    by simp_all
  with a2 have w3: "severity (data_classification (the_analysis
       (classify (Inr (100, 100)) (Inr []) ?c2 None 5))) \<noteq> None"
    and w4: "affectedArea (data_classification (the_analysis
       (classify (Inr (100, 100)) (Inr []) ?c2 None 5))) \<noteq> None"
    by simp_all
  from w1 w2 w3 w4 show ?thesis by (intro conjI)
qed

lemma box_area_eq: "box_area = (\<lambda>(x1, y1, x2, y2). max 0 (x2 - x1) * max 0 (y2 - y1))"
  by (rule ext) (simp split: prod.splits)

text \<open>
  Claim C5. For the plant domain, whenever the regions are cropped and the classifier
  succeeds on every region, the boxes of the report's regions are those of the Region
  Extractor and \<open>affectedArea\<close> is
  \<open>round(100 * (sum over the region boxes of max(0, x2-x1) * max(0, y2-y1)) / (width*height))\<close>
  when \<open>width * height > 0\<close>, and absent otherwise. The sum runs over the list of
  boxes, so a box that occurs twice counts twice, and nothing bounds the result by 100.
\<close>

theorem affected_area_formula:
  assumes "boxes_for_regions width height dets = Inr boxes"
    and "classify_regions clf 0 boxes ([], 0, - 1) = Inr (classified, best_idx, best_conf)"
    and "resolve_domain imageDomain dets (r_label (classified ! best_idx)) = ''plant''"
  shows "\<exists>a. classify (Inr (width, height)) (Inr dets) clf imageDomain processing_time = Success a \<and>
     map r_box (data_regions a) = boxes \<and>
     affectedArea (data_classification a) =
       (if 0 < width * height
        then Some (py_round
               (of_int (100 * (\<Sum>(x1, y1, x2, y2) \<leftarrow> boxes.
                                  max 0 (x2 - x1) * max 0 (y2 - y1)))
                / of_int (width * height)))
        else None)"
proof -
  from classify_report[OF assms(1,2) refl assms(3)[symmetric]] obtain a where
    a: "classify (Inr (width, height)) (Inr dets) clf imageDomain processing_time = Success a"
    and f: "affectedArea (data_classification a) = affected_area_pct ''plant'' width height boxes"
    and r: "data_regions a = classified"
    by blast
  from region_boxes[OF assms(2)] have m: "map r_box classified = boxes" .
  show ?thesis
    using a f r m
    by (simp add: affected_area_pct_def Let_def region_area_sum box_area_eq)
qed

text \<open>
  Runs of C5 in a 100 x 100 image: two disjoint 10 x 10 regions give 2, two identical
  10 x 10 regions give 2 as well, and two regions that each cover the image give 200.
\<close>

theorem affected_area_formula_witness:
  "affectedArea (data_classification (the_analysis
     (classify (Inr (100, 100))
        (Inr [stub_detection ''potted plant'' 0.9 (0, 0, 10, 10),
              stub_detection ''potted plant'' 0.8 (50, 50, 60, 60)])
        (stub_classifier [((0, 0, 10, 10), stub_result ''daisy'' 0.7),
                          ((50, 50, 60, 60), stub_result ''daisy'' 0.5)]) None 5))) = Some 2 \<and>
   affectedArea (data_classification (the_analysis
     (classify (Inr (100, 100))
        (Inr [stub_detection ''potted plant'' 0.9 (0, 0, 10, 10),
              stub_detection ''potted plant'' 0.8 (0, 0, 10, 10)])
        (stub_classifier [((0, 0, 10, 10), stub_result ''daisy'' 0.7)]) None 5))) = Some 2 \<and>
   affectedArea (data_classification (the_analysis
     (classify (Inr (100, 100))
        (Inr [stub_detection ''potted plant'' 0.9 (0, 0, 100, 100),
              stub_detection ''potted plant'' 0.8 (0, 0, 100, 100)])
        (stub_classifier [((0, 0, 100, 100), stub_result ''daisy'' 0.7)]) None 5))) = Some 200"
proof -
  let ?c1 = "stub_classifier [((0, 0, 10, 10), stub_result ''daisy'' 0.7),
                              ((50, 50, 60, 60), stub_result ''daisy'' 0.5)]"
  let ?d1 = "[stub_detection ''potted plant'' 0.9 (0, 0, 10, 10),
              stub_detection ''potted plant'' 0.8 (50, 50, 60, 60)]"
  let ?b1 = "[(0, 0, 10, 10), (50, 50, 60, 60)] :: ibox list"
  let ?r1 = "[\<lparr>r_label = ''daisy'', r_confidence = 0.7, r_top3 = [(''daisy'', 0.7)],
               r_box = (0, 0, 10, 10)\<rparr>,
              \<lparr>r_label = ''daisy'', r_confidence = 0.5, r_top3 = [(''daisy'', 0.5)],
               r_box = (50, 50, 60, 60)\<rparr>]"
  let ?c2 = "stub_classifier [((0, 0, 10, 10), stub_result ''daisy'' 0.7)]"
  let ?d2 = "[stub_detection ''potted plant'' 0.9 (0, 0, 10, 10),
              stub_detection ''potted plant'' 0.8 (0, 0, 10, 10)]"
  let ?b2 = "[(0, 0, 10, 10), (0, 0, 10, 10)] :: ibox list"
  let ?r2 = "[\<lparr>r_label = ''daisy'', r_confidence = 0.7, r_top3 = [(''daisy'', 0.7)],
               r_box = (0, 0, 10, 10)\<rparr>,
              \<lparr>r_label = ''daisy'', r_confidence = 0.7, r_top3 = [(''daisy'', 0.7)],
               r_box = (0, 0, 10, 10)\<rparr>]"
  let ?c3 = "stub_classifier [((0, 0, 100, 100), stub_result ''daisy'' 0.7)]"
  let ?d3 = "[stub_detection ''potted plant'' 0.9 (0, 0, 100, 100),
              stub_detection ''potted plant'' 0.8 (0, 0, 100, 100)]"
  let ?b3 = "[(0, 0, 100, 100), (0, 0, 100, 100)] :: ibox list"
  let ?r3 = "[\<lparr>r_label = ''daisy'', r_confidence = 0.7, r_top3 = [(''daisy'', 0.7)],
               r_box = (0, 0, 100, 100)\<rparr>,
              \<lparr>r_label = ''daisy'', r_confidence = 0.7, r_top3 = [(''daisy'', 0.7)],
               r_box = (0, 0, 100, 100)\<rparr>]"
  let ?area = "\<lambda>bs :: ibox list. if (0::int) < 100 * 100
        then Some (py_round
               (of_int (100 * (\<Sum>(x1, y1, x2, y2) \<leftarrow> bs.
                                  max 0 (x2 - x1) * max 0 (y2 - y1)))
                / of_int (100 * 100)))
        else None"
  have g1: "boxes_for_regions 100 100 ?d1 = Inr ?b1" by code_simp
  have h1: "classify_regions ?c1 0 ?b1 ([], 0, - 1) = Inr (?r1, 0, 0.7)"
    by code_simp
  have e1: "resolve_domain None ?d1 (r_label (?r1 ! 0)) = ''plant''" by code_simp
  have v1: "?area ?b1 = Some 2" by code_simp
  have g2: "boxes_for_regions 100 100 ?d2 = Inr ?b2" by code_simp
  have h2: "classify_regions ?c2 0 ?b2 ([], 0, - 1) = Inr (?r2, 0, 0.7)"
    by code_simp
  have e2: "resolve_domain None ?d2 (r_label (?r2 ! 0)) = ''plant''" by code_simp
  have v2: "?area ?b2 = Some 2" by code_simp
  have g3: "boxes_for_regions 100 100 ?d3 = Inr ?b3" by code_simp
  have h3: "classify_regions ?c3 0 ?b3 ([], 0, - 1) = Inr (?r3, 0, 0.7)"
    by code_simp
  have e3: "resolve_domain None ?d3 (r_label (?r3 ! 0)) = ''plant''" by code_simp
  have v3: "?area ?b3 = Some 200" by code_simp
  from affected_area_formula[OF g1 h1 e1, of 5] obtain a1 where
    "classify (Inr (100, 100)) (Inr ?d1) ?c1 None 5 = Success a1"
    "affectedArea (data_classification a1) = ?area ?b1"
    by blast
  with v1 have w1: "affectedArea (data_classification (the_analysis
     (classify (Inr (100, 100)) (Inr ?d1) ?c1 None 5))) = Some 2"
    by simp
  from affected_area_formula[OF g2 h2 e2, of 5] obtain a2 where
    "classify (Inr (100, 100)) (Inr ?d2) ?c2 None 5 = Success a2"
    "affectedArea (data_classification a2) = ?area ?b2"
    by blast
  with v2 have w2: "affectedArea (data_classification (the_analysis
     (classify (Inr (100, 100)) (Inr ?d2) ?c2 None 5))) = Some 2"
    by simp
  from affected_area_formula[OF g3 h3 e3, of 5] obtain a3 where
    "classify (Inr (100, 100)) (Inr ?d3) ?c3 None 5 = Success a3"
    "affectedArea (data_classification a3) = ?area ?b3"
    by blast
  with v3 have w3: "affectedArea (data_classification (the_analysis
     (classify (Inr (100, 100)) (Inr ?d3) ?c3 None 5))) = Some 200"
    by simp
  from w1 w2 w3 show ?thesis by (intro conjI)
qed

text \<open>
  Claim C6. For the plant domain, whenever the regions are cropped and the classifier
  succeeds on every region, the report's \<open>severity\<close> is "high" when the best-region
  confidence is at least 0.8, "medium" when it is at least 0.6 and below 0.8, and "low"
  otherwise.
\<close>

theorem severity_thresholds:
  assumes "boxes_for_regions width height dets = Inr boxes"
    and "classify_regions clf 0 boxes ([], 0, - 1) = Inr (classified, best_idx, best_conf)"
    and "resolve_domain imageDomain dets (r_label (classified ! best_idx)) = ''plant''"
  shows "\<exists>a. classify (Inr (width, height)) (Inr dets) clf imageDomain processing_time = Success a \<and>
     (0.8 \<le> best_conf \<longrightarrow> severity (data_classification a) = Some ''high'') \<and>
     (0.6 \<le> best_conf \<and> best_conf < 0.8 \<longrightarrow> severity (data_classification a) = Some ''medium'') \<and>
     (best_conf < 0.6 \<longrightarrow> severity (data_classification a) = Some ''low'')"
proof -
  from classify_report[OF assms(1,2) refl assms(3)[symmetric]] obtain a where
    a: "classify (Inr (width, height)) (Inr dets) clf imageDomain processing_time = Success a"
    and s: "severity (data_classification a) = severity_heuristic ''plant'' best_conf"
    by blast
  have "0.8 \<le> best_conf \<longrightarrow> severity_heuristic ''plant'' best_conf = Some ''high''"
    and "0.6 \<le> best_conf \<and> best_conf < 0.8 \<longrightarrow> severity_heuristic ''plant'' best_conf = Some ''medium''"
    and "best_conf < 0.6 \<longrightarrow> severity_heuristic ''plant'' best_conf = Some ''low''"
    by (simp_all add: severity_heuristic_def)
  with a s show ?thesis by simp
qed

text \<open>
  Runs of C6 at the boundaries: a confidence of exactly 0.8 is graded high, exactly 0.6
  medium, and 0.599 low.
\<close>

theorem severity_thresholds_witness:
  "severity (data_classification (the_analysis
     (classify (Inr (100, 100)) (Inr [])
        (stub_classifier [((0, 0, 100, 100), stub_result ''leaf'' 0.8)]) None 5))) = Some ''high'' \<and>
   severity (data_classification (the_analysis
     (classify (Inr (100, 100)) (Inr [])
        (stub_classifier [((0, 0, 100, 100), stub_result ''leaf'' 0.6)]) None 5))) = Some ''medium'' \<and>
   severity (data_classification (the_analysis
     (classify (Inr (100, 100)) (Inr [])
        (stub_classifier [((0, 0, 100, 100), stub_result ''leaf'' 0.599)]) None 5))) = Some ''low''"
proof -
  let ?c1 = "stub_classifier [((0, 0, 100, 100), stub_result ''leaf'' 0.8)]"
  let ?r1 = "[\<lparr>r_label = ''leaf'', r_confidence = 0.8, r_top3 = [(''leaf'', 0.8)],
               r_box = (0, 0, 100, 100)\<rparr>]"
  let ?c2 = "stub_classifier [((0, 0, 100, 100), stub_result ''leaf'' 0.6)]"
  let ?r2 = "[\<lparr>r_label = ''leaf'', r_confidence = 0.6, r_top3 = [(''leaf'', 0.6)],
               r_box = (0, 0, 100, 100)\<rparr>]"
  let ?c3 = "stub_classifier [((0, 0, 100, 100), stub_result ''leaf'' 0.599)]"
  let ?r3 = "[\<lparr>r_label = ''leaf'', r_confidence = 0.599, r_top3 = [(''leaf'', 0.599)],
               r_box = (0, 0, 100, 100)\<rparr>]"
  have b: "boxes_for_regions 100 100 [] = Inr [(0, 0, 100, 100)]"
    by code_simp
  have h1: "classify_regions ?c1 0 [(0, 0, 100, 100)] ([], 0, - 1) = Inr (?r1, 0, 0.8)"
    by code_simp
  have e1: "resolve_domain None [] (r_label (?r1 ! 0)) = ''plant''" by code_simp
  have h2: "classify_regions ?c2 0 [(0, 0, 100, 100)] ([], 0, - 1) = Inr (?r2, 0, 0.6)"
    by code_simp
  have e2: "resolve_domain None [] (r_label (?r2 ! 0)) = ''plant''" by code_simp
  have h3: "classify_regions ?c3 0 [(0, 0, 100, 100)] ([], 0, - 1) = Inr (?r3, 0, 0.599)"
    by code_simp
  have e3: "resolve_domain None [] (r_label (?r3 ! 0)) = ''plant''" by code_simp
  from severity_thresholds[OF b h1 e1, of 5] obtain a1 where
    "classify (Inr (100, 100)) (Inr []) ?c1 None 5 = Success a1"
    "(0.8::real) \<le> 0.8 \<longrightarrow> severity (data_classification a1) = Some ''high''"
    by blast
  then have w1: "severity (data_classification (the_analysis
     (classify (Inr (100, 100)) (Inr []) ?c1 None 5))) = Some ''high''"
    by simp
  from severity_thresholds[OF b h2 e2, of 5] obtain a2 where
    "classify (Inr (100, 100)) (Inr []) ?c2 None 5 = Success a2"
    "(0.6::real) \<le> 0.6 \<and> (0.6::real) < 0.8 \<longrightarrow> severity (data_classification a2) = Some ''medium''"
    by blast
  then have w2: "severity (data_classification (the_analysis
     (classify (Inr (100, 100)) (Inr []) ?c2 None 5))) = Some ''medium''"
    by simp
  from severity_thresholds[OF b h3 e3, of 5] obtain a3 where
    "classify (Inr (100, 100)) (Inr []) ?c3 None 5 = Success a3"
    "(0.599::real) < 0.6 \<longrightarrow> severity (data_classification a3) = Some ''low''"
    by blast
  then have w3: "severity (data_classification (the_analysis
     (classify (Inr (100, 100)) (Inr []) ?c3 None 5))) = Some ''low''"
    by simp
  from w1 w2 w3 show ?thesis by (intro conjI)
qed

section \<open>Domain override\<close>

text \<open>
  Claim C10. Without an override, or with the empty string as override, the domain is
  the Domain Estimator's; a non-empty override is used as it is. When the override is
  non-empty and none of plant, livestock, fish, the regions are cropped and the
  classifier succeeds on every region, the report has no \<open>severity\<close> and no
  \<open>affectedArea\<close>, \<open>diseaseDetected\<close> is false, \<open>diseaseName\<close> is the primary label, the
  recommendations are empty and the narrative is
  "Detected subject classified as {label} with {pct}% confidence.".
\<close>

theorem domain_override:
  assumes "boxes_for_regions width height dets = Inr boxes"
    and "classify_regions clf 0 boxes ([], 0, - 1) = Inr (classified, best_idx, best_conf)"
    and "primary_label = r_label (classified ! best_idx)"
    and "d \<noteq> []" and "d \<noteq> ''plant''" and "d \<noteq> ''livestock''" and "d \<noteq> ''fish''"
  shows "resolve_domain None dets primary_label = estimate_domain dets primary_label \<and>
     resolve_domain (Some []) dets primary_label = estimate_domain dets primary_label \<and>
     resolve_domain (Some d) dets primary_label = d \<and>
     (\<exists>a. classify (Inr (width, height)) (Inr dets) clf (Some d) processing_time = Success a \<and>
        severity (data_classification a) = None \<and>
        affectedArea (data_classification a) = None \<and>
        \<not> diseaseDetected (data_classification a) \<and>
        diseaseName (data_classification a) = primary_label \<and>
        recommendations (data_classification a) = [] \<and>
        data_report a = ''Detected subject classified as '' @ primary_label @ '' with ''
          @ str_int (py_round (best_conf * 100)) @ ''% confidence.'')"
proof -
  have r: "resolve_domain (Some d) dets primary_label = d"
    using assms(4) by (simp add: resolve_domain_def)
  from classify_report[OF assms(1,2,3) r[symmetric]] obtain a where
    a: "classify (Inr (width, height)) (Inr dets) clf (Some d) processing_time = Success a" and
    f: "diseaseDetected (data_classification a) = disease_detected d primary_label"
       "diseaseName (data_classification a) = disease_name d primary_label"
       "severity (data_classification a) = severity_heuristic d best_conf"
       "affectedArea (data_classification a) = affected_area_pct d width height boxes"
       "recommendations (data_classification a) =
          recommendations_for d (disease_detected d primary_label)"
       "data_report a = make_narrative d primary_label best_conf dets"
    by blast
  have v: "disease_detected d primary_label = False"
    "disease_name d primary_label = primary_label"
    "severity_heuristic d best_conf = None"
    "affected_area_pct d width height boxes = None"
    "recommendations_for d False = []"
    "make_narrative d primary_label best_conf dets =
       ''Detected subject classified as '' @ primary_label @ '' with ''
          @ str_int (py_round (best_conf * 100)) @ ''% confidence.''"
    using assms(5-7)
    by (simp_all add: disease_detected_def disease_name_def severity_heuristic_def
        affected_area_pct_def recommendations_for_def make_narrative_def Let_def)
  have "resolve_domain None dets primary_label = estimate_domain dets primary_label"
    "resolve_domain (Some []) dets primary_label = estimate_domain dets primary_label"
    by (simp_all add: resolve_domain_def)
  with r a f v show ?thesis by simp
qed

text \<open>
  A run of C10: the override "Plant", with a capital letter, is kept as the domain, and
  a region classified as "leaf" at 0.9 gets the fallback narrative and no severity.
\<close>

theorem domain_override_witness:
  "resolve_domain (Some ''Plant'') [] ''leaf'' = ''Plant'' \<and>
   severity (data_classification (the_analysis
     (classify (Inr (100, 100)) (Inr [])
        (stub_classifier [((0, 0, 100, 100), stub_result ''leaf'' 0.9)]) (Some ''Plant'') 5)))
     = None \<and>
   data_report (the_analysis
     (classify (Inr (100, 100)) (Inr [])
        (stub_classifier [((0, 0, 100, 100), stub_result ''leaf'' 0.9)]) (Some ''Plant'') 5))
     = ''Detected subject classified as leaf with 90% confidence.''"
proof -
  let ?c = "stub_classifier [((0, 0, 100, 100), stub_result ''leaf'' 0.9)]"
  let ?r = "[\<lparr>r_label = ''leaf'', r_confidence = 0.9, r_top3 = [(''leaf'', 0.9)],
              r_box = (0, 0, 100, 100)\<rparr>]"
  have b: "boxes_for_regions 100 100 [] = Inr [(0, 0, 100, 100)]"
    by code_simp
  have h: "classify_regions ?c 0 [(0, 0, 100, 100)] ([], 0, - 1) = Inr (?r, 0, 0.9)"
    by code_simp
  have p: "''leaf'' = r_label (?r ! 0)" by simp
  have n: "''Plant'' \<noteq> []" "''Plant'' \<noteq> ''plant''" "''Plant'' \<noteq> ''livestock''"
    "''Plant'' \<noteq> ''fish''"
    by simp_all
  have t: "''Detected subject classified as '' @ ''leaf'' @ '' with ''
          @ str_int (py_round (0.9 * 100)) @ ''% confidence.''
        = ''Detected subject classified as leaf with 90% confidence.''"
    by code_simp
  from domain_override[OF b h p n, of 5] obtain a where
    "resolve_domain (Some ''Plant'') [] ''leaf'' = ''Plant''"
    "classify (Inr (100, 100)) (Inr []) ?c (Some ''Plant'') 5 = Success a"
    "severity (data_classification a) = None"
    "data_report a = ''Detected subject classified as '' @ ''leaf'' @ '' with ''
          @ str_int (py_round (0.9 * 100)) @ ''% confidence.''"
    by blast
  with t show ?thesis by simp
qed

section \<open>Domain estimation\<close>

lemma labels_meet_iff: "set (map f xs) \<inter> A \<noteq> {} \<longleftrightarrow> (\<exists>x \<in> set xs. f x \<in> A)"
  by auto

lemma estimate_domain_chain:
  "estimate_domain dets l =
     (if \<exists>d \<in> set dets. lower (det_label d) \<in> animal_tokens then ''livestock''
      else if \<exists>d \<in> set dets. lower (det_label d) \<in> plant_tokens then ''plant''
      else if \<exists>tok \<in> set [''shark'', ''ray'', ''tench'', ''goldfish'', ''salmon'', ''trout'',
                  ''tilapia'', ''cod'', ''mackerel'']. \<exists>ys zs. lower l = ys @ tok @ zs then ''fish''
      else if \<exists>tok \<in> set [''leaf'', ''plant'', ''tomato'', ''potato'', ''maize'', ''corn'',
                  ''wheat'', ''rice'']. \<exists>ys zs. lower l = ys @ tok @ zs then ''plant''
      else if \<exists>tok \<in> set [''cow'', ''sheep'', ''horse'', ''cat'', ''dog'', ''tiger'', ''lion''].
                  \<exists>ys zs. lower l = ys @ tok @ zs then ''livestock''
      else ''plant'')"
  by (simp only: estimate_domain_def Let_def labels_meet_iff any_tok_in_iff)

text \<open>
  Claim C7. If the lowercased label of any detection is one of cow, sheep, horse, dog,
  cat, bird, zebra, giraffe, bear, the estimator returns livestock whatever the
  classification label is; otherwise, if one is "potted plant" or "plant", it returns
  plant, again whatever the classification label is, so the detection rules come before
  the substring rules. The result is always plant, livestock or fish, and it is plant
  when no rule matches.
\<close>

theorem estimate_domain_precedence:
  "((\<exists>d \<in> set dets. lower (det_label d) \<in>
        {''cow'', ''sheep'', ''horse'', ''dog'', ''cat'', ''bird'', ''zebra'', ''giraffe'', ''bear''})
      \<longrightarrow> estimate_domain dets l = ''livestock'') \<and>
   (\<not> (\<exists>d \<in> set dets. lower (det_label d) \<in>
        {''cow'', ''sheep'', ''horse'', ''dog'', ''cat'', ''bird'', ''zebra'', ''giraffe'', ''bear''}) \<and>
    (\<exists>d \<in> set dets. lower (det_label d) \<in> {''potted plant'', ''plant''})
      \<longrightarrow> estimate_domain dets l = ''plant'') \<and>
   (estimate_domain dets l = ''plant'' \<or> estimate_domain dets l = ''livestock'' \<or>
    estimate_domain dets l = ''fish'') \<and>
   (\<not> (\<exists>d \<in> set dets. lower (det_label d) \<in>
        {''cow'', ''sheep'', ''horse'', ''dog'', ''cat'', ''bird'', ''zebra'', ''giraffe'', ''bear''}) \<and>
    \<not> (\<exists>d \<in> set dets. lower (det_label d) \<in> {''potted plant'', ''plant''}) \<and>
    \<not> (\<exists>tok \<in> set [''shark'', ''ray'', ''tench'', ''goldfish'', ''salmon'', ''trout'',
                  ''tilapia'', ''cod'', ''mackerel'']. \<exists>ys zs. lower l = ys @ tok @ zs) \<and>
    \<not> (\<exists>tok \<in> set [''leaf'', ''plant'', ''tomato'', ''potato'', ''maize'', ''corn'',
                  ''wheat'', ''rice'']. \<exists>ys zs. lower l = ys @ tok @ zs) \<and>
    \<not> (\<exists>tok \<in> set [''cow'', ''sheep'', ''horse'', ''cat'', ''dog'', ''tiger'', ''lion''].
                  \<exists>ys zs. lower l = ys @ tok @ zs)
      \<longrightarrow> estimate_domain dets l = ''plant'')"
proof -
  define A where "A \<longleftrightarrow> (\<exists>d \<in> set dets. lower (det_label d) \<in>
        {''cow'', ''sheep'', ''horse'', ''dog'', ''cat'', ''bird'', ''zebra'', ''giraffe'', ''bear''})"
  define P where "P \<longleftrightarrow> (\<exists>d \<in> set dets. lower (det_label d) \<in> {''potted plant'', ''plant''})"
  define F where "F \<longleftrightarrow> (\<exists>tok \<in> set [''shark'', ''ray'', ''tench'', ''goldfish'', ''salmon'',
        ''trout'', ''tilapia'', ''cod'', ''mackerel'']. \<exists>ys zs. lower l = ys @ tok @ zs)"
  define Q where "Q \<longleftrightarrow> (\<exists>tok \<in> set [''leaf'', ''plant'', ''tomato'', ''potato'', ''maize'',
        ''corn'', ''wheat'', ''rice'']. \<exists>ys zs. lower l = ys @ tok @ zs)"
  define L where "L \<longleftrightarrow> (\<exists>tok \<in> set [''cow'', ''sheep'', ''horse'', ''cat'', ''dog'', ''tiger'',
        ''lion'']. \<exists>ys zs. lower l = ys @ tok @ zs)"
  define e where "e = estimate_domain dets l"
  have c: "e = (if A then ''livestock'' else if P then ''plant'' else if F then ''fish''
                else if Q then ''plant'' else if L then ''livestock'' else ''plant'')"
    unfolding e_def A_def P_def F_def Q_def L_def
    by (rule estimate_domain_chain [unfolded animal_tokens_def plant_tokens_def])
  have "(A \<longrightarrow> e = ''livestock'') \<and> (\<not> A \<and> P \<longrightarrow> e = ''plant'') \<and>
        (e = ''plant'' \<or> e = ''livestock'' \<or> e = ''fish'') \<and>
        (\<not> A \<and> \<not> P \<and> \<not> F \<and> \<not> Q \<and> \<not> L \<longrightarrow> e = ''plant'')"
    unfolding c by simp
  then show ?thesis
    unfolding e_def A_def P_def F_def Q_def L_def .
qed

text \<open>
  A run of C7: a detection labelled "Cow" gives livestock although the classification
  label "maple leaf" contains the plant token "leaf".
\<close>

theorem estimate_domain_precedence_witness:
  "estimate_domain [stub_detection ''Cow'' 0.9 (0, 0, 10, 10)] ''maple leaf'' = ''livestock''"
proof -
  have "lower ''Cow'' = ''cow''" by code_simp
  then have "\<exists>d \<in> set [stub_detection ''Cow'' 0.9 (0, 0, 10, 10)]. lower (det_label d) \<in>
        {''cow'', ''sheep'', ''horse'', ''dog'', ''cat'', ''bird'', ''zebra'', ''giraffe'', ''bear''}"
    by (simp add: stub_detection_def)
  with estimate_domain_precedence
    [of "[stub_detection ''Cow'' 0.9 (0, 0, 10, 10)]" "''maple leaf''"]
  show ?thesis by blast
qed

section \<open>Best region and fallback region\<close>

text \<open>
  Claim C8. When the loop over a non-empty list of regions ends, and the confidences lie
  above the initial \<open>best_conf\<close> of \<open>-1.0\<close> (they are probabilities), \<open>best_idx\<close> is an index
  of the classified regions, \<open>best_conf\<close> is the confidence at that index, that
  confidence is the maximum of all of them, and every earlier region has a strictly
  smaller one: the selected index is the least index attaining the maximum.
\<close>

theorem best_region_first_maximum:
  assumes "classify_regions clf 0 boxes ([], 0, - 1) = Inr (classified, best_idx, best_conf)"
    and "boxes \<noteq> []"
    and "\<forall>r \<in> set classified. - 1 < r_confidence r"
  shows "length classified = length boxes \<and> best_idx < length classified \<and>
     best_conf = r_confidence (classified ! best_idx) \<and>
     r_confidence (classified ! best_idx) = Max (set (map r_confidence classified)) \<and>
     (\<forall>j<length classified. r_confidence (classified ! j) \<le> r_confidence (classified ! best_idx)) \<and>
     (\<forall>j<best_idx. r_confidence (classified ! j) < r_confidence (classified ! best_idx))"
proof -
  from classify_regions_run[OF assms(1)] have inv: "best_inv classified best_idx best_conf"
    and len: "length classified = length boxes"
    by (auto dest: list_all2_lengthD)
  from len assms(2) have pos: "0 < length classified" by (cases boxes) auto
  from inv have le: "\<forall>j<length classified. r_confidence (classified ! j) \<le> best_conf"
    by (simp add: best_inv_def)
  from pos assms(3) have "- 1 < r_confidence (classified ! 0)" by simp
  moreover from pos le have "r_confidence (classified ! 0) \<le> best_conf" by blast
  ultimately have "best_conf \<noteq> - 1" by linarith
  with inv have idx: "best_idx < length classified"
    and eq: "r_confidence (classified ! best_idx) = best_conf"
    and first: "\<forall>j<best_idx. r_confidence (classified ! j) < best_conf"
    by (auto simp: best_inv_def)
  have "Max (set (map r_confidence classified)) = r_confidence (classified ! best_idx)"
  proof (rule Max_eqI)
    show "finite (set (map r_confidence classified))" by simp
    show "y \<le> r_confidence (classified ! best_idx)" if "y \<in> set (map r_confidence classified)" for y
      using that le eq by (auto simp: in_set_conv_nth)
    show "r_confidence (classified ! best_idx) \<in> set (map r_confidence classified)"
      using idx by simp
  qed
  with len idx eq le first show ?thesis by simp
qed

text \<open>
  A run of C8: for three regions with confidences 0.3, 0.9 and 0.9 the loop selects
  index 1 with confidence 0.9, the maximum.
\<close>

theorem best_region_first_maximum_witness:
  "classify_regions
     (stub_classifier [((0, 0, 10, 10), stub_result ''daisy'' 0.3),
                       ((20, 20, 30, 30), stub_result ''rose'' 0.9),
                       ((40, 40, 50, 50), stub_result ''tulip'' 0.9)]) 0
     [(0, 0, 10, 10), (20, 20, 30, 30), (40, 40, 50, 50)] ([], 0, - 1)
   = Inr ([\<lparr>r_label = ''daisy'', r_confidence = 0.3, r_top3 = [(''daisy'', 0.3)],
            r_box = (0, 0, 10, 10)\<rparr>,
           \<lparr>r_label = ''rose'', r_confidence = 0.9, r_top3 = [(''rose'', 0.9)],
            r_box = (20, 20, 30, 30)\<rparr>,
           \<lparr>r_label = ''tulip'', r_confidence = 0.9, r_top3 = [(''tulip'', 0.9)],
            r_box = (40, 40, 50, 50)\<rparr>], 1, 0.9) \<and>
   Max (set (map r_confidence
          [\<lparr>r_label = ''daisy'', r_confidence = 0.3, r_top3 = [(''daisy'', 0.3)],
            r_box = (0, 0, 10, 10)\<rparr>,
           \<lparr>r_label = ''rose'', r_confidence = 0.9, r_top3 = [(''rose'', 0.9)],
            r_box = (20, 20, 30, 30)\<rparr>,
           \<lparr>r_label = ''tulip'', r_confidence = 0.9, r_top3 = [(''tulip'', 0.9)],
            r_box = (40, 40, 50, 50)\<rparr>])) = 0.9"
proof -
  let ?c = "stub_classifier [((0, 0, 10, 10), stub_result ''daisy'' 0.3),
                       ((20, 20, 30, 30), stub_result ''rose'' 0.9),
                       ((40, 40, 50, 50), stub_result ''tulip'' 0.9)]"
  let ?b = "[(0, 0, 10, 10), (20, 20, 30, 30), (40, 40, 50, 50)] :: ibox list"
  let ?rs = "[\<lparr>r_label = ''daisy'', r_confidence = 0.3, r_top3 = [(''daisy'', 0.3)],
            r_box = (0, 0, 10, 10)\<rparr>,
           \<lparr>r_label = ''rose'', r_confidence = 0.9, r_top3 = [(''rose'', 0.9)],
            r_box = (20, 20, 30, 30)\<rparr>,
           \<lparr>r_label = ''tulip'', r_confidence = 0.9, r_top3 = [(''tulip'', 0.9)],
            r_box = (40, 40, 50, 50)\<rparr>]"
  have h: "classify_regions ?c 0 ?b ([], 0, - 1) = Inr (?rs, 1, 0.9)"
    by code_simp
  have n: "?b \<noteq> []" by simp
  have p: "\<forall>r \<in> set ?rs. - 1 < r_confidence r" by simp
  from best_region_first_maximum[OF h n p]
  have "r_confidence (?rs ! 1) = Max (set (map r_confidence ?rs))" by blast
  then have "Max (set (map r_confidence ?rs)) = 0.9" by simp
  with h show ?thesis by (intro conjI)
qed

text \<open>
  Claim C9. Without detections the Region Extractor gives the single box
  \<open>(0, 0, width, height)\<close>; if the classifier succeeds on that region the endpoint returns
  a report, and every report it returns has exactly one region, with that box.
\<close>

theorem no_detections_single_region:
  "boxes_for_regions width height [] = Inr [(0, 0, width, height)] \<and>
   (clf (0, 0, width, height) = Inr cls \<longrightarrow>
      (\<exists>a. classify (Inr (width, height)) (Inr []) clf imageDomain processing_time = Success a \<and>
           length (data_regions a) = 1 \<and>
           r_box (data_regions a ! 0) = (0, 0, width, height))) \<and>
   (classify (Inr (width, height)) (Inr []) clf imageDomain processing_time = Success a \<longrightarrow>
      length (data_regions a) = 1 \<and> r_box (data_regions a ! 0) = (0, 0, width, height))"
proof -
  have b: "boxes_for_regions width height [] = Inr [(0, 0, width, height)]"
    by (simp add: boxes_for_regions_def)
  have one: "length (data_regions a') = 1 \<and> r_box (data_regions a' ! 0) = (0, 0, width, height)"
    if "classify (Inr (width, height)) (Inr []) clf imageDomain processing_time = Success a'" for a'
  proof -
    from that b obtain cl bi bc where
      r: "classify_regions clf 0 [(0, 0, width, height)] ([], 0, - 1) = Inr (cl, bi, bc)"
      by (auto simp: classify_def split: sum.splits)
    from classify_report[OF b r refl refl, of imageDomain processing_time] that
    have d: "data_regions a' = cl" by auto
    from region_boxes[OF r] have "map r_box cl = [(0, 0, width, height)]" .
    then have "length cl = 1 \<and> r_box (cl ! 0) = (0, 0, width, height)"
      by (cases cl) auto
    with d show ?thesis by simp
  qed
  have ex: "\<exists>a. classify (Inr (width, height)) (Inr []) clf imageDomain processing_time = Success a \<and>
           length (data_regions a) = 1 \<and> r_box (data_regions a ! 0) = (0, 0, width, height)"
    if c: "clf (0, 0, width, height) = Inr cls"
  proof -
    from c have
      r: "classify_regions clf 0 [(0, 0, width, height)] ([], 0, - 1)
          = Inr ([\<lparr>r_label = c_label cls, r_confidence = c_confidence cls,
                   r_top3 = c_top3 cls, r_box = (0, 0, width, height)\<rparr>], 0,
                 if - 1 < c_confidence cls then c_confidence cls else - 1)"
      by (simp add: Let_def)
    from classify_report[OF b r refl refl, of imageDomain processing_time] obtain a' where
      "classify (Inr (width, height)) (Inr []) clf imageDomain processing_time = Success a'"
      by blast
    with one[of a'] show ?thesis by blast
  qed
  from b one ex show ?thesis by blast
qed

text \<open>
  A run of C9: a 640 x 480 image without detections yields one region with the box
  \<open>(0, 0, 640, 480)\<close>.
\<close>

theorem no_detections_single_region_witness:
  "stub_classifier [((0, 0, 640, 480), stub_result ''daisy'' 0.7)] (0, 0, 640, 480)
     = Inr (stub_result ''daisy'' 0.7) \<and>
   length (data_regions (the_analysis
     (classify (Inr (640, 480)) (Inr [])
        (stub_classifier [((0, 0, 640, 480), stub_result ''daisy'' 0.7)]) None 5))) = 1 \<and>
   r_box (data_regions (the_analysis
     (classify (Inr (640, 480)) (Inr [])
        (stub_classifier [((0, 0, 640, 480), stub_result ''daisy'' 0.7)]) None 5)) ! 0)
     = (0, 0, 640, 480)"
proof -
  let ?c = "stub_classifier [((0, 0, 640, 480), stub_result ''daisy'' 0.7)]"
  have h: "?c (0, 0, 640, 480) = Inr (stub_result ''daisy'' 0.7)"
    by (simp add: stub_classifier_def)
  from no_detections_single_region[of 640 480 ?c "stub_result ''daisy'' 0.7" None 5] h
  obtain a where "classify (Inr (640, 480)) (Inr []) ?c None 5 = Success a"
    "length (data_regions a) = 1" "r_box (data_regions a ! 0) = (0, 0, 640, 480)"
    by blast
  with h show ?thesis by simp
qed

end
